theory Spec2Isabelle
  imports Main "HOL-Library.AList"
begin

section \<open>Data model\<close>

text \<open>
  The program (\<^verbatim>\<open>Main_Programme.py\<close>) keeps one pandas DataFrame, \<^verbatim>\<open>drawings_df\<close>, with
  the two columns \<^verbatim>\<open>'Original Name'\<close> and \<^verbatim>\<open>'New Name'\<close>. The first column only ever
  receives \<^verbatim>\<open>file.name\<close> of an uploaded file, so it is text. The second column receives
  the empty string, text typed by the user, or whatever a spreadsheet cell held when it was
  read by \<^verbatim>\<open>pd.read_excel\<close>: text, the missing value NaN (a blank cell), or another scalar
  (a number, a date). A scalar that is neither text nor missing is kept by the text that
  Python's \<^verbatim>\<open>str\<close> prints for it, which is all the program ever does with it.
\<close>

datatype cell = Str string | NaN | Scalar string

fun isnull :: "cell \<Rightarrow> bool" where
  "isnull NaN = True"
| "isnull (Str s) = False"
| "isnull (Scalar s) = False"

definition notna :: "cell \<Rightarrow> bool" where
  "notna c = (\<not> isnull c)"

fun py_str :: "cell \<Rightarrow> string" where
  "py_str (Str s) = s"
| "py_str NaN = ''nan''"
| "py_str (Scalar s) = s"

definition fillna :: "cell \<Rightarrow> cell" where
  "fillna c = (if isnull c then Str [] else c)"

text \<open>A row of \<^verbatim>\<open>drawings_df\<close>: (Original Name, New Name); the table is the list of rows.\<close>

type_synonym table = "(string \<times> cell) list"

text \<open>
  A DataFrame with arbitrary columns (the exported and the imported sheet), column by
  column: a column label and the cells of that column.
\<close>

type_synonym frame = "(string \<times> cell list) list"

text \<open>An uploaded file: \<^verbatim>\<open>file.name\<close> and \<^verbatim>\<open>file.getbuffer()\<close>.\<close>

type_synonym blob = string
type_synonym upload = "string \<times> blob"

text \<open>
  The working directory. A directory is the list of its files (name, content) with
  distinct names; \<^verbatim>\<open>os.listdir\<close> gives the names (in an order Python leaves open, here
  the order of creation). \<open>dirs\<close> are the directories of the working directory by name,
  \<open>zips\<close> the archive files by name, each archive being the list of its entries.
  Uploaded file names are base names (the browser sends no directory part), so a staged
  file is looked up by its name alone.
\<close>

type_synonym dir = "(string \<times> blob) list"

record fs =
  dirs :: "string \<rightharpoonup> dir"
  zips :: "string \<rightharpoonup> dir"

text \<open>\<^verbatim>\<open>st.session_state\<close>: the table, and \<^verbatim>\<open>temp_dir_path\<close> once a batch was saved.\<close>

record session =
  drawings_df :: table
  temp_dir_path :: "string option"

datatype error =
    InvalidIndexError
  | ValueError string
  | FileNotFoundError
  | SameFileError
  | PathNotPlain string

datatype message = Success string | Error string

section \<open>Export: \<^verbatim>\<open>create_excel_download_link\<close>\<close>

text \<open>
  \<^verbatim>\<open>df[original_title_col]\<close> for the two columns the table has. The result of the function
  is the frame \<^verbatim>\<open>export_df\<close> that is handed to the spreadsheet writer (the writer itself is
  the library's), or \<^verbatim>\<open>None\<close>.
\<close>

definition table_column :: "table \<Rightarrow> string \<Rightarrow> cell list option" where
  "table_column df c =
     (if c = ''Original Name'' then Some (map (\<lambda>row. Str (fst row)) df)
      else if c = ''New Name'' then Some (map snd df)
      else None)"

definition create_excel_download_link :: "table \<Rightarrow> string \<Rightarrow> error + frame option" where
  "create_excel_download_link df original_title_col =
     (if df = [] then Inr None
      else case table_column df original_title_col of
             None \<Rightarrow> Inl (ValueError original_title_col)
           | Some titles \<Rightarrow>
               Inr (Some [(''Original Title'', titles),
                          (''Renamed Title'', replicate (length df) (Str []))]))"

section \<open>Staging: \<^verbatim>\<open>save_uploaded_files\<close>\<close>

definition save_uploaded_files :: "upload list \<Rightarrow> fs \<Rightarrow> string \<times> fs" where
  "save_uploaded_files uploaded_files s =
     (let temp_dir = ''temp_uploaded_files'';
          existing = (case dirs s temp_dir of None \<Rightarrow> [] | Some d \<Rightarrow> d);
          written = foldl (\<lambda>d file. AList.update (fst file) (snd file) d) existing uploaded_files
      in (temp_dir, s\<lparr>dirs := (dirs s)(temp_dir \<mapsto> written)\<rparr>))"

section \<open>Materialisation: \<^verbatim>\<open>process_and_zip_files\<close>\<close>

text \<open>\<^verbatim>\<open>str.rfind\<close> for one character: the highest index, or -1.\<close>

fun rfind :: "string \<Rightarrow> char \<Rightarrow> int" where
  "rfind [] c = - 1"
| "rfind (x # xs) c =
     (let r = rfind xs c in if 0 \<le> r then r + 1 else if x = c then 0 else - 1)"

text \<open>
  \<^verbatim>\<open>os.path.splitext\<close> (POSIX): the extension starts at the last dot, provided that dot
  comes after the last slash and some character between the two is not a dot (leading
  dots of the file name do not start an extension).
\<close>

definition splitext :: "string \<Rightarrow> string \<times> string" where
  "splitext p =
     (let sepIndex = rfind p (CHR ''/'');
          dotIndex = rfind p (CHR ''.'')
      in if sepIndex < dotIndex \<and>
            list_ex (\<lambda>c. c \<noteq> CHR ''.'')
              (take (nat (dotIndex - (sepIndex + 1))) (drop (nat (sepIndex + 1)) p))
         then (take (nat dotIndex) p, drop (nat dotIndex) p)
         else (p, []))"

text \<open>Lines 51 to 54: the name under which a row's file is copied.\<close>

definition new_name_base :: "string \<times> cell \<Rightarrow> string" where
  "new_name_base row =
     (if notna (snd row) \<and> snd row \<noteq> Str [] then py_str (snd row) else fst row)"

definition output_name :: "string \<times> cell \<Rightarrow> string" where
  "output_name row = new_name_base row @ snd (splitext (fst row))"

text \<open>
  A plain name denotes a direct child of the directory it is joined to. The new name is
  free text; when it is not plain (it has a slash, or is a dot name), the copy raises or
  writes outside the output directory, which this model does not follow: the run ends in
  \<open>PathNotPlain\<close>.
\<close>

definition plain_name :: "string \<Rightarrow> bool" where
  "plain_name n =
     (n \<noteq> [] \<and> n \<noteq> ''.'' \<and> n \<noteq> ''..'' \<and> CHR ''/'' \<notin> set n \<and> CHR 0x00 \<notin> set n)"

text \<open>The loop body, lines 51 to 61, on the file system.\<close>

definition copy_row :: "string \<Rightarrow> string \<Rightarrow> fs \<Rightarrow> string \<times> cell \<Rightarrow> error + fs" where
  "copy_row temp_dir renamed_dir s row =
     (let original_name = fst row;
          new_name = output_name row
      in case dirs s temp_dir of
           None \<Rightarrow> Inr s
         | Some staged \<Rightarrow>
             (case map_of staged original_name of
                None \<Rightarrow> Inr s
              | Some content \<Rightarrow>
                  if \<not> plain_name new_name then Inl (PathNotPlain new_name)
                  else if temp_dir = renamed_dir \<and> new_name = original_name
                    then Inl SameFileError
                  else (case dirs s renamed_dir of
                          None \<Rightarrow> Inl FileNotFoundError
                        | Some out \<Rightarrow>
                            Inr (s\<lparr>dirs := (dirs s)
                                   (renamed_dir \<mapsto> AList.update new_name content out)\<rparr>))))"

fun copy_rows :: "string \<Rightarrow> string \<Rightarrow> fs \<Rightarrow> table \<Rightarrow> error + fs" where
  "copy_rows temp_dir renamed_dir s [] = Inr s"
| "copy_rows temp_dir renamed_dir s (row # rows) =
     (case copy_row temp_dir renamed_dir s row of
        Inl e \<Rightarrow> Inl e
      | Inr s' \<Rightarrow> copy_rows temp_dir renamed_dir s' rows)"

definition makedirs_exist_ok :: "string \<Rightarrow> fs \<Rightarrow> fs" where
  "makedirs_exist_ok d s =
     (case dirs s d of None \<Rightarrow> s\<lparr>dirs := (dirs s)(d \<mapsto> [])\<rparr> | Some _ \<Rightarrow> s)"

definition rmtree :: "string \<Rightarrow> fs \<Rightarrow> error + fs" where
  "rmtree d s =
     (case dirs s d of
        None \<Rightarrow> Inl FileNotFoundError
      | Some _ \<Rightarrow> Inr (s\<lparr>dirs := (dirs s)(d := None)\<rparr>))"

definition process_and_zip_files :: "table \<Rightarrow> string \<Rightarrow> fs \<Rightarrow> error + (string \<times> fs)" where
  "process_and_zip_files df temp_dir s =
     (let renamed_dir = ''temp_renamed_files'';
          s1 = makedirs_exist_ok renamed_dir s
      in case copy_rows temp_dir renamed_dir s1 df of
           Inl e \<Rightarrow> Inl e
         | Inr s2 \<Rightarrow>
             (let zip_name = ''renamed_files.zip''
              in case dirs s2 renamed_dir of
                   None \<Rightarrow> Inl FileNotFoundError
                 | Some out \<Rightarrow>
                     (let s3 = s2\<lparr>zips := (zips s2)(zip_name \<mapsto> out)\<rparr>
                      in case rmtree temp_dir s3 of
                           Inl e \<Rightarrow> Inl e
                         | Inr s4 \<Rightarrow>
                             (case rmtree renamed_dir s4 of
                                Inl e \<Rightarrow> Inl e
                              | Inr s5 \<Rightarrow> Inr (zip_name, s5)))))"

section \<open>The blocks of \<^verbatim>\<open>main\<close>\<close>

subsection \<open>Upload, lines 85 to 100\<close>

text \<open>
  \<^verbatim>\<open>Series.map\<close> with a Series as the mapper: each value is looked up in the mapper's
  index, a missing one gives NaN; pandas raises \<^verbatim>\<open>InvalidIndexError\<close> when the index of the
  mapper has a repeated label.
\<close>

definition series_map :: "table \<Rightarrow> string list \<Rightarrow> error + cell list" where
  "series_map mapper vals =
     (if distinct (map fst mapper)
      then Inr (map (\<lambda>v. case map_of mapper v of None \<Rightarrow> NaN | Some c \<Rightarrow> c) vals)
      else Inl InvalidIndexError)"

definition main_upload :: "upload list \<Rightarrow> session \<Rightarrow> fs \<Rightarrow> error + (session \<times> fs)" where
  "main_upload uploaded_files sess s =
     (if uploaded_files = [] then Inr (sess, s)
      else if \<not> list_all isnull (map snd (drawings_df sess)) then
        (let existing_names = drawings_df sess;
             file_names = map fst uploaded_files
         in case series_map existing_names file_names of
              Inl e \<Rightarrow> Inl e
            | Inr mapped \<Rightarrow>
                Inr (sess\<lparr>drawings_df := zip file_names (map fillna mapped)\<rparr>, s))
      else
        (let saved = save_uploaded_files uploaded_files s;
             file_names = map fst uploaded_files
         in Inr (sess\<lparr>temp_dir_path := Some (fst saved),
                      drawings_df := map (\<lambda>n. (n, Str [])) file_names\<rparr>,
                 snd saved)))"

subsection \<open>Export button, lines 117 to 130\<close>

definition main_export :: "session \<Rightarrow> error + (frame option \<times> message option)" where
  "main_export sess =
     (if drawings_df sess \<noteq> [] then
        (case create_excel_download_link (drawings_df sess) ''Original Name'' of
           Inl e \<Rightarrow> Inl e
         | Inr excel_file \<Rightarrow> Inr (excel_file, None))
      else Inr (None, Some (Error ''No file names to export.'')))"

subsection \<open>Import button, lines 135 to 163\<close>

text \<open>
  What the Excel uploader holds when the button is pressed: nothing, a file that
  \<^verbatim>\<open>pd.read_excel\<close> fails on (with the text of the exception), or a file it parses.
\<close>

datatype excel_upload = No_upload | Unreadable string | Parsed frame

text \<open>
  \<^verbatim>\<open>dict(zip(keys, values))\<close>: a key keeps the place of its first occurrence and the value
  of its last one. Keys are compared as HOL values; a key that is not text equals no file
  name (line 150), so how Python identifies such keys has no effect.
\<close>

definition dict_zip :: "cell list \<Rightarrow> cell list \<Rightarrow> (cell \<times> cell) list" where
  "dict_zip ks vs = foldl (\<lambda>d kv. AList.update (fst kv) (snd kv) d) [] (zip ks vs)"

text \<open>Lines 150 to 152, for one item of \<^verbatim>\<open>name_map\<close>.\<close>

definition update_matched :: "table \<Rightarrow> cell \<times> cell \<Rightarrow> table" where
  "update_matched updated_df item =
     (let matched_rows = map (\<lambda>row. Str (fst row) = fst item) updated_df
      in if list_ex (\<lambda>b. b) matched_rows
         then map (\<lambda>(row, m). if m then (fst row, snd item) else row) (zip updated_df matched_rows)
         else updated_df)"

definition main_import :: "excel_upload \<Rightarrow> session \<Rightarrow> session \<times> message" where
  "main_import uploaded_excel sess =
     (case uploaded_excel of
        No_upload \<Rightarrow> (sess, Error ''No Excel file uploaded. Please upload a file to process.'')
      | Unreadable e \<Rightarrow> (sess, Error (''Error reading the Excel file: '' @ e))
      | Parsed imported_df \<Rightarrow>
          (case (map_of imported_df ''Renamed Title'', map_of imported_df ''Original Title'') of
             (Some renamed, Some original) \<Rightarrow>
               (let name_map = dict_zip original renamed;
                    updated_df = foldl update_matched (drawings_df sess) name_map
                in (sess\<lparr>drawings_df := updated_df\<rparr>,
                    Success ''File names updated from the Excel file.''))
           | _ \<Rightarrow> (sess, Error ''The uploaded Excel file does not have the required columns.'')))"

subsection \<open>Process button, lines 169 to 176\<close>

text \<open>The outcome is the archive offered for download, or the error message.\<close>

definition main_process :: "session \<Rightarrow> fs \<Rightarrow> error + ((string \<times> dir) + message) \<times> fs" where
  "main_process sess s =
     (case temp_dir_path sess of
        None \<Rightarrow> Inr (Inr (Error ''No files uploaded or temporary directory missing.''), s)
      | Some temp_dir \<Rightarrow>
          if dirs s temp_dir = None
          then Inr (Inr (Error ''No files uploaded or temporary directory missing.''), s)
          else (case process_and_zip_files (drawings_df sess) temp_dir s of
                  Inl e \<Rightarrow> Inl e
                | Inr (zip_file, s') \<Rightarrow>
                    (case zips s' zip_file of
                       None \<Rightarrow> Inl FileNotFoundError
                     | Some archive \<Rightarrow>
                         Inr (Inl (zip_file, archive), s'\<lparr>zips := (zips s')(zip_file := None)\<rparr>))))"

section \<open>Notions used in the statements\<close>

text \<open>
  A new name that asks for no rename: missing or the empty string (line 52 tests both).
\<close>

definition blank :: "cell \<Rightarrow> bool" where
  "blank c = (isnull c \<or> c = Str [])"


text \<open>The value of the last pair with key \<open>k\<close> in a list of pairs.\<close>

fun last_value :: "('k \<times> 'v) list \<Rightarrow> 'k \<Rightarrow> 'v option" where
  "last_value [] k = None"
| "last_value (kv # kvs) k =
     (case last_value kvs k of
        Some v \<Rightarrow> Some v
      | None \<Rightarrow> if fst kv = k then Some (snd kv) else None)"

text \<open>\<^verbatim>\<open>os.path.exists(os.path.join(temp_dir, name))\<close> for a file name.\<close>

definition path_exists :: "fs \<Rightarrow> string \<Rightarrow> string \<Rightarrow> bool" where
  "path_exists s temp_dir name =
     (case dirs s temp_dir of None \<Rightarrow> False | Some staged \<Rightarrow> map_of staged name \<noteq> None)"

section \<open>Export\<close>

text \<open>
  C7. Exporting the empty table gives \<^verbatim>\<open>None\<close>. Exporting a table of N rows gives a sheet
  of two columns with N cells each: \<^verbatim>\<open>Original Title\<close> holds the original names in table
  order and \<^verbatim>\<open>Renamed Title\<close> holds the empty string in every row, whatever the new names
  of the table are.
\<close>

theorem export_blank_sheet:
  "create_excel_download_link [] c = Inr None \<and>
   (df \<noteq> [] \<longrightarrow>
      create_excel_download_link df ''Original Name'' =
        Inr (Some [(''Original Title'', map (\<lambda>row. Str (fst row)) df),
                   (''Renamed Title'', replicate (length df) (Str []))]))"
  by (simp add: create_excel_download_link_def table_column_def)

theorem export_blank_sheet_witness:
  "[(''a.png'', Str ''alpha''), (''b.jpg'', Str [])] \<noteq> [] \<and>
   create_excel_download_link [(''a.png'', Str ''alpha''), (''b.jpg'', Str [])] ''Original Name'' =
     Inr (Some [(''Original Title'', [Str ''a.png'', Str ''b.jpg'']),
                (''Renamed Title'', [Str [], Str []])])"
  using export_blank_sheet [of "''Original Name''" "[(''a.png'', Str ''alpha''), (''b.jpg'', Str [])]"]
  by (simp add: numeral_2_eq_2)

section \<open>Import\<close>

lemma map_of_foldl_update:
  "map_of (foldl (\<lambda>d kv. AList.update (fst kv) (snd kv) d) d kvs) k =
     (case last_value kvs k of Some v \<Rightarrow> Some v | None \<Rightarrow> map_of d k)"
  by (induction kvs arbitrary: d) (auto simp: update_conv' split: option.splits)

lemma distinct_foldl_update:
  "distinct (map fst d) \<Longrightarrow>
   distinct (map fst (foldl (\<lambda>d kv. AList.update (fst kv) (snd kv) d) d kvs))"
  by (induction kvs arbitrary: d) (auto simp: distinct_update)

lemma map_of_dict_zip: "map_of (dict_zip ks vs) k = last_value (zip ks vs) k"
  by (simp add: dict_zip_def map_of_foldl_update split: option.splits)

lemma distinct_dict_zip: "distinct (map fst (dict_zip ks vs))"
  by (simp add: dict_zip_def distinct_foldl_update)

lemma update_matched_map:
  "update_matched df item =
     map (\<lambda>row. if Str (fst row) = fst item then (fst row, snd item) else row) df"
proof -
  have z: "map (\<lambda>(row, m). if m then (fst row, snd item) else row)
             (zip df (map (\<lambda>row. Str (fst row) = fst item) df)) =
           map (\<lambda>row. if Str (fst row) = fst item then (fst row, snd item) else row) df"
    by (induction df) auto
  have n: "\<not> list_ex (\<lambda>b. b) (map (\<lambda>row. Str (fst row) = fst item) df) \<Longrightarrow>
           map (\<lambda>row. if Str (fst row) = fst item then (fst row, snd item) else row) df = df"
    by (induction df) auto
  show ?thesis
    using z n by (simp add: update_matched_def Let_def)
qed

lemma foldl_update_matched:
  "distinct (map fst items) \<Longrightarrow>
   foldl update_matched df items =
     map (\<lambda>row. case map_of items (Str (fst row)) of None \<Rightarrow> row | Some v \<Rightarrow> (fst row, v)) df"
proof (induction items arbitrary: df)
  case Nil
  then show ?case by simp
next
  case (Cons item items)
  have notin: "map_of items (fst item) = None"
    using Cons.prems by (simp add: map_of_eq_None_iff)
  have "foldl update_matched df (item # items) =
          map (\<lambda>row. case map_of items (Str (fst row)) of None \<Rightarrow> row | Some v \<Rightarrow> (fst row, v))
              (update_matched df item)"
    using Cons.prems by (simp add: Cons.IH)
  also have "\<dots> =
          map (\<lambda>row. case map_of (item # items) (Str (fst row)) of
                        None \<Rightarrow> row
                      | Some v \<Rightarrow> (fst row, v)) df"
    using notin by (cases item) (auto simp: update_matched_map split: option.splits)
  finally show ?case .
qed

text \<open>
  C5. When the parsed sheet has both columns, the import succeeds and the new table is
  the old one in which every row whose original name occurs in \<^verbatim>\<open>Original Title\<close> has its
  new name replaced by the \<^verbatim>\<open>Renamed Title\<close> cell of the last such occurrence (whatever
  that cell is, a blank one included), and every other row is as before.
\<close>

theorem import_overwrites:
  assumes "map_of imported_df ''Original Title'' = Some original"
    and "map_of imported_df ''Renamed Title'' = Some renamed"
  shows "main_import (Parsed imported_df) sess =
           (sess\<lparr>drawings_df :=
                   map (\<lambda>row. case last_value (zip original renamed) (Str (fst row)) of
                                 None \<Rightarrow> row
                               | Some v \<Rightarrow> (fst row, v))
                       (drawings_df sess)\<rparr>,
            Success ''File names updated from the Excel file.'')"
  using assms
  by (simp add: main_import_def foldl_update_matched distinct_dict_zip map_of_dict_zip)

theorem import_overwrites_witness:
  "map_of [(''Original Title'', [Str ''a.png'', Str ''zz'', Str ''a.png'', Str ''c.pdf'']),
           (''Renamed Title'', [Str ''x'', Str ''y'', Str ''alpha'', NaN])] ''Original Title''
     = Some [Str ''a.png'', Str ''zz'', Str ''a.png'', Str ''c.pdf''] \<and>
   map_of [(''Original Title'', [Str ''a.png'', Str ''zz'', Str ''a.png'', Str ''c.pdf'']),
           (''Renamed Title'', [Str ''x'', Str ''y'', Str ''alpha'', NaN])] ''Renamed Title''
     = Some [Str ''x'', Str ''y'', Str ''alpha'', NaN] \<and>
   main_import
     (Parsed [(''Original Title'', [Str ''a.png'', Str ''zz'', Str ''a.png'', Str ''c.pdf'']),
              (''Renamed Title'', [Str ''x'', Str ''y'', Str ''alpha'', NaN])])
     \<lparr>drawings_df = [(''a.png'', Str ''q''), (''b.png'', Str ''r''), (''c.pdf'', Str ''s'')],
      temp_dir_path = None\<rparr>
     = (\<lparr>drawings_df = [(''a.png'', Str ''alpha''), (''b.png'', Str ''r''), (''c.pdf'', NaN)],
         temp_dir_path = None\<rparr>,
        Success ''File names updated from the Excel file.'')"
  using import_overwrites
    [of "[(''Original Title'', [Str ''a.png'', Str ''zz'', Str ''a.png'', Str ''c.pdf'']),
          (''Renamed Title'', [Str ''x'', Str ''y'', Str ''alpha'', NaN])]"
        "[Str ''a.png'', Str ''zz'', Str ''a.png'', Str ''c.pdf'']"
        "[Str ''x'', Str ''y'', Str ''alpha'', NaN]"
        "\<lparr>drawings_df = [(''a.png'', Str ''q''), (''b.png'', Str ''r''), (''c.pdf'', Str ''s'')],
          temp_dir_path = None\<rparr>"]
  by simp

text \<open>
  C6. When the parsed sheet lacks \<^verbatim>\<open>Renamed Title\<close> or \<^verbatim>\<open>Original Title\<close>, the import
  block ends normally with the error message about the required columns, and the session
  (with its table) is exactly as it was.
\<close>

theorem import_schema_error:
  assumes "''Renamed Title'' \<notin> set (map fst imported_df) \<or>
           ''Original Title'' \<notin> set (map fst imported_df)"
  shows "main_import (Parsed imported_df) sess =
           (sess, Error ''The uploaded Excel file does not have the required columns.'')"
proof -
  from assms have "map_of imported_df ''Renamed Title'' = None \<or>
                   map_of imported_df ''Original Title'' = None"
    by (simp add: map_of_eq_None_iff)
  then show ?thesis
    by (auto simp: main_import_def split: option.splits)
qed

theorem import_schema_error_witness:
  "''Renamed Title'' \<notin> set (map fst [(''Original Title'', [Str ''a.png''])]) \<and>
   main_import (Parsed [(''Original Title'', [Str ''a.png''])])
     \<lparr>drawings_df = [(''a.png'', Str ''q'')], temp_dir_path = None\<rparr>
     = (\<lparr>drawings_df = [(''a.png'', Str ''q'')], temp_dir_path = None\<rparr>,
        Error ''The uploaded Excel file does not have the required columns.'')"
  using import_schema_error
    [of "[(''Original Title'', [Str ''a.png''])]"
        "\<lparr>drawings_df = [(''a.png'', Str ''q'')], temp_dir_path = None\<rparr>"]
  by simp

section \<open>Upload and reconciliation\<close>












section \<open>Staging on upload\<close>

lemma last_value_None_iff: "last_value kvs k = None \<longleftrightarrow> k \<notin> fst ` set kvs"
  by (induction kvs) (auto split: option.splits)

text \<open>
  The branch that starts a new table (lines 95 to 100) writes every uploaded file into the
  staging directory.
\<close>

lemma upload_fresh_branch_stages:
  assumes "uploaded_files \<noteq> []" and "list_all isnull (map snd (drawings_df sess))"
    and "main_upload uploaded_files sess s = Inr (sess', s')"
    and "n \<in> fst ` set uploaded_files"
  shows "path_exists s' ''temp_uploaded_files'' n"
proof -
  have "last_value uploaded_files n \<noteq> None"
    using assms(4) by (simp add: last_value_None_iff)
  then show ?thesis
    using assms(1,2,3)
    by (auto simp: main_upload_def save_uploaded_files_def path_exists_def Let_def
        map_of_foldl_update split: option.splits)
qed

text \<open>
  The branch that keeps the existing new names (lines 88 to 93) never calls
  \<^verbatim>\<open>save_uploaded_files\<close>: the file system and \<^verbatim>\<open>temp_dir_path\<close> are as before.
\<close>

lemma upload_preserving_branch_writes_nothing:
  assumes "\<not> list_all isnull (map snd (drawings_df sess))"
    and "main_upload uploaded_files sess s = Inr (sess', s')"
  shows "s' = s \<and> temp_dir_path sess' = temp_dir_path sess"
  using assms
  by (auto simp: main_upload_def Let_def split: if_splits sum.splits)

lemmas run_defs =
  process_and_zip_files_def makedirs_exist_ok_def copy_row_def output_name_def
  new_name_base_def splitext_def plain_name_def rmtree_def notna_def path_exists_def Let_def

text \<open>
  C2. The claim fails on the code. With \<^verbatim>\<open>a.png\<close> staged and renamed to \<^verbatim>\<open>alpha\<close>, the
  user adds \<^verbatim>\<open>b.png\<close> to the uploader. The upload block takes the branch that keeps the
  new names: the table gets a row for \<^verbatim>\<open>b.png\<close>, but the staging directory still holds
  \<^verbatim>\<open>a.png\<close> alone. Materialising that table then delivers an archive without \<^verbatim>\<open>b.png\<close>.
\<close>

theorem second_batch_not_staged:
  "map_sum id (\<lambda>r. (drawings_df (fst r), dirs (snd r) ''temp_uploaded_files''))
     (main_upload [(''a.png'', ''A''), (''b.png'', ''B'')]
        \<lparr>drawings_df = [(''a.png'', Str ''alpha'')], temp_dir_path = Some ''temp_uploaded_files''\<rparr>
        \<lparr>dirs = [''temp_uploaded_files'' \<mapsto> [(''a.png'', ''A'')]], zips = Map.empty\<rparr>)
     = Inr ([(''a.png'', Str ''alpha''), (''b.png'', Str [])], Some [(''a.png'', ''A'')]) \<and>
   map_sum id fst
     (main_process
        \<lparr>drawings_df = [(''a.png'', Str ''alpha''), (''b.png'', Str [])],
         temp_dir_path = Some ''temp_uploaded_files''\<rparr>
        \<lparr>dirs = [''temp_uploaded_files'' \<mapsto> [(''a.png'', ''A'')]], zips = Map.empty\<rparr>)
     = Inr (Inl (''renamed_files.zip'', [(''alpha.png'', ''A'')]))"
  by (simp add: main_upload_def series_map_def fillna_def main_process_def run_defs)

section \<open>Materialisation\<close>

subsection \<open>Output names\<close>

lemma new_name_base_blank: "blank c \<Longrightarrow> new_name_base (n, c) = n"
  by (cases c) (auto simp: new_name_base_def blank_def notna_def)

lemma new_name_base_given: "\<not> blank c \<Longrightarrow> new_name_base (n, c) = py_str c"
  by (cases c) (auto simp: new_name_base_def blank_def notna_def)

text \<open>
  With a new name given, the output name is that name followed by the extension of the
  original name. With none given, the output name is the whole original name followed by
  its own extension once more (line 54 appends it in both cases).
\<close>

lemma output_name_given: "\<not> blank c \<Longrightarrow> output_name (n, c) = py_str c @ snd (splitext n)"
  by (simp add: output_name_def new_name_base_given)

lemma output_name_blank: "blank c \<Longrightarrow> output_name (n, c) = n @ snd (splitext n)"
  by (simp add: output_name_def new_name_base_blank)

text \<open>
  C1. The claim fails on the code for a row without a new name. For the table
  \<^verbatim>\<open>[("a.png","alpha"),("b.jpg","")]\<close> with both files staged, the archive has the entries
  \<^verbatim>\<open>alpha.png\<close> and \<^verbatim>\<open>b.jpg.jpg\<close>, not \<^verbatim>\<open>b.jpg\<close>.
\<close>

theorem blank_new_name_doubles_extension:
  "output_name (''b.jpg'', Str []) = ''b.jpg.jpg'' \<and>
   map_sum id (\<lambda>r. zips (snd r) (fst r))
     (process_and_zip_files [(''a.png'', Str ''alpha''), (''b.jpg'', Str [])]
        ''temp_uploaded_files''
        \<lparr>dirs = [''temp_uploaded_files'' \<mapsto> [(''a.png'', ''A''), (''b.jpg'', ''B'')]],
         zips = Map.empty\<rparr>)
     = Inr (Some [(''alpha.png'', ''A''), (''b.jpg.jpg'', ''B'')])"
  by (simp add: run_defs)

subsection \<open>A missing new name\<close>

lemma output_name_fillna: "output_name (n, fillna c) = output_name (n, c)"
  by (cases c) (auto simp: output_name_def new_name_base_def fillna_def notna_def)

lemma copy_row_fillna:
  "copy_row temp_dir renamed_dir s (fst row, fillna (snd row)) = copy_row temp_dir renamed_dir s row"
  by (simp add: copy_row_def output_name_fillna [of "fst row" "snd row"] del: prod.collapse)
    (simp add: copy_row_def)

lemma copy_rows_fillna:
  "copy_rows temp_dir renamed_dir s (map (\<lambda>row. (fst row, fillna (snd row))) df) =
   copy_rows temp_dir renamed_dir s df"
  by (induction df arbitrary: s) (auto simp: copy_row_fillna split: sum.splits)

text \<open>
  C10. A row whose new name is the missing value is handled exactly as the row with the
  empty new name: the base name is the original name (the text \<^verbatim>\<open>nan\<close> is never used), the
  output name and the effect of the loop body are the same, and a whole run on a table
  gives the same result as the run on the table with every missing new name replaced by
  the empty string.
\<close>

theorem null_new_name_as_empty:
  "new_name_base (n, NaN) = n \<and>
   output_name (n, NaN) = output_name (n, Str []) \<and>
   copy_row temp_dir renamed_dir s (n, NaN) = copy_row temp_dir renamed_dir s (n, Str []) \<and>
   process_and_zip_files (map (\<lambda>row. (fst row, fillna (snd row))) df) temp_dir s =
     process_and_zip_files df temp_dir s"
proof -
  have f: "fillna NaN = Str []" by (simp add: fillna_def)
  have a: "new_name_base (n, NaN) = n"
    by (simp add: new_name_base_blank blank_def)
  have b: "output_name (n, NaN) = output_name (n, Str [])"
    using output_name_fillna [of n NaN] by (simp add: f)
  have c: "copy_row temp_dir renamed_dir s (n, NaN) = copy_row temp_dir renamed_dir s (n, Str [])"
    using copy_row_fillna [of temp_dir renamed_dir s "(n, NaN)"] by (simp add: f)
  have d: "process_and_zip_files (map (\<lambda>row. (fst row, fillna (snd row))) df) temp_dir s =
           process_and_zip_files df temp_dir s"
    by (simp add: process_and_zip_files_def copy_rows_fillna)
  show ?thesis using a b c d by simp
qed

subsection \<open>Rows without a staged file\<close>

lemma copy_row_missing:
  "\<not> path_exists s temp_dir (fst row) \<Longrightarrow> copy_row temp_dir renamed_dir s row = Inr s"
  by (auto simp: path_exists_def copy_row_def split: option.splits)

lemma copy_row_frame:
  assumes "copy_row temp_dir renamed_dir s row = Inr s'"
  shows "zips s' = zips s" and "d \<noteq> renamed_dir \<Longrightarrow> dirs s' d = dirs s d"
    and "dirs s renamed_dir \<noteq> None \<Longrightarrow> dirs s' renamed_dir \<noteq> None"
  using assms by (auto simp: copy_row_def Let_def split: option.splits if_splits)

lemma copy_row_path_exists:
  assumes "copy_row temp_dir renamed_dir s row = Inr s'" and "temp_dir \<noteq> renamed_dir"
  shows "path_exists s' temp_dir = path_exists s temp_dir"
  using copy_row_frame(2) [OF assms(1), of temp_dir] assms(2)
  by (auto simp: path_exists_def fun_eq_iff)

lemma copy_rows_skip_missing:
  assumes "temp_dir \<noteq> renamed_dir"
  shows "copy_rows temp_dir renamed_dir s (filter (\<lambda>row. path_exists s temp_dir (fst row)) df) =
         copy_rows temp_dir renamed_dir s df"
proof (induction df arbitrary: s)
  case Nil
  then show ?case by simp
next
  case (Cons row df)
  show ?case
  proof (cases "path_exists s temp_dir (fst row)")
    case False
    then show ?thesis by (simp add: copy_row_missing Cons.IH)
  next
    case True
    show ?thesis
    proof (cases "copy_row temp_dir renamed_dir s row")
      case (Inl e)
      then show ?thesis using True by simp
    next
      case (Inr s')
      have "path_exists s' temp_dir = path_exists s temp_dir"
        using Inr assms by (rule copy_row_path_exists)
      then show ?thesis
        using True Inr Cons.IH [of s'] by simp
    qed
  qed
qed

lemma makedirs_path_exists:
  "temp_dir \<noteq> d \<Longrightarrow> path_exists (makedirs_exist_ok d s) temp_dir = path_exists s temp_dir"
  by (auto simp: makedirs_exist_ok_def path_exists_def fun_eq_iff split: option.splits)

text \<open>
  C8. A row whose original name is not in the staging directory makes the loop body do
  nothing and raise nothing, and a whole run (copies, packaging, clean-up and result, or
  the error of another row) is the run on the table without such rows: no output file
  comes from them and nothing after them is affected. The staging directory is not the
  output directory (\<^verbatim>\<open>main\<close> passes \<^verbatim>\<open>temp_uploaded_files\<close>).
\<close>

theorem missing_staged_file_skipped:
  assumes "temp_dir \<noteq> ''temp_renamed_files''"
  shows "(\<not> path_exists s temp_dir (fst row) \<longrightarrow>
            copy_row temp_dir ''temp_renamed_files'' s row = Inr s) \<and>
         process_and_zip_files df temp_dir s =
           process_and_zip_files (filter (\<lambda>row. path_exists s temp_dir (fst row)) df) temp_dir s"
proof -
  have "copy_rows temp_dir ''temp_renamed_files'' (makedirs_exist_ok ''temp_renamed_files'' s)
          (filter (\<lambda>row. path_exists s temp_dir (fst row)) df) =
        copy_rows temp_dir ''temp_renamed_files'' (makedirs_exist_ok ''temp_renamed_files'' s) df"
    using copy_rows_skip_missing [OF assms, of "makedirs_exist_ok ''temp_renamed_files'' s" df]
    by (simp add: makedirs_path_exists [OF assms])
  then show ?thesis
    by (simp add: process_and_zip_files_def copy_row_missing)
qed

theorem missing_staged_file_skipped_witness:
  "''temp_uploaded_files'' \<noteq> ''temp_renamed_files'' \<and>
   \<not> path_exists \<lparr>dirs = [''temp_uploaded_files'' \<mapsto> [(''a.png'', ''A'')]], zips = Map.empty\<rparr>
        ''temp_uploaded_files'' ''b.jpg'' \<and>
   copy_row ''temp_uploaded_files'' ''temp_renamed_files''
     \<lparr>dirs = [''temp_uploaded_files'' \<mapsto> [(''a.png'', ''A'')]], zips = Map.empty\<rparr>
     (''b.jpg'', Str ''beta'')
     = Inr \<lparr>dirs = [''temp_uploaded_files'' \<mapsto> [(''a.png'', ''A'')]], zips = Map.empty\<rparr> \<and>
   process_and_zip_files [(''b.jpg'', Str ''beta''), (''a.png'', Str ''alpha'')]
     ''temp_uploaded_files''
     \<lparr>dirs = [''temp_uploaded_files'' \<mapsto> [(''a.png'', ''A'')]], zips = Map.empty\<rparr>
     = process_and_zip_files [(''a.png'', Str ''alpha'')]
         ''temp_uploaded_files''
         \<lparr>dirs = [''temp_uploaded_files'' \<mapsto> [(''a.png'', ''A'')]], zips = Map.empty\<rparr> \<and>
   map_sum id (\<lambda>r. zips (snd r) (fst r))
     (process_and_zip_files [(''b.jpg'', Str ''beta''), (''a.png'', Str ''alpha'')]
        ''temp_uploaded_files''
        \<lparr>dirs = [''temp_uploaded_files'' \<mapsto> [(''a.png'', ''A'')]], zips = Map.empty\<rparr>)
     = Inr (Some [(''alpha.png'', ''A'')])"
  using missing_staged_file_skipped
    [of "''temp_uploaded_files''"
        "\<lparr>dirs = [''temp_uploaded_files'' \<mapsto> [(''a.png'', ''A'')]], zips = Map.empty\<rparr>"
        "(''b.jpg'', Str ''beta'')"
        "[(''b.jpg'', Str ''beta''), (''a.png'', Str ''alpha'')]"]
  by (simp add: path_exists_def) (simp add: run_defs)

subsection \<open>Clean-up\<close>



lemma process_returns_cleaned:
  assumes "process_and_zip_files df temp_dir s = Inr (zip_name, s')"
  shows "dirs s' temp_dir = None \<and> dirs s' ''temp_renamed_files'' = None \<and>
         zips s' zip_name \<noteq> None"
  using assms
  by (auto simp: process_and_zip_files_def rmtree_def Let_def
      split: sum.splits option.splits if_splits)



end
